theory Spec2Isabelle
  imports Complex_Main "HOL-Library.Word"
begin

section \<open>Shared Python model\<close>

text \<open>
  A Python exception is a value: the name of its class and the text that \<open>str(e)\<close> gives.
  Code that may raise returns \<open>py_exception + 'a\<close>, with \<open>Inl\<close> for the raise.
\<close>

datatype py_exception = PyException string string

fun exc_str :: "py_exception \<Rightarrow> string" where
  "exc_str (PyException cls msg) = msg"

definition ValueError :: "string \<Rightarrow> py_exception" where
  "ValueError msg = PyException ''ValueError'' msg"

definition IndexError :: "string \<Rightarrow> py_exception" where
  "IndexError msg = PyException ''IndexError'' msg"

definition TypeError :: "string \<Rightarrow> py_exception" where
  "TypeError msg = PyException ''TypeError'' msg"

definition AttributeError :: "string \<Rightarrow> py_exception" where
  "AttributeError msg = PyException ''AttributeError'' msg"

text \<open>Sequencing: a raise in the first step skips the rest and propagates.\<close>

definition raising :: "py_exception + 'a \<Rightarrow> ('a \<Rightarrow> py_exception + 'b) \<Rightarrow> py_exception + 'b" where
  "raising r f = (case r of Inl e \<Rightarrow> Inl e | Inr v \<Rightarrow> f v)"

section \<open>Sugarcane disease service (prediction.py)\<close>

subsection \<open>Images, tensors, models and the outside world\<close>

text \<open>
  A decoded RGB image is a grid of pixels with three 8-bit channels (rows of pixels).
  A float32 or float64 value is the real number it stands for; infinities and NaN are
  outside the model. The channel means of the heuristic are exact: for a 128 x 128 image
  of 8-bit values the float32 channel sums stay below \<open>2 ^ 24\<close> and the division is by
  \<open>2 ^ 14\<close>. The tensors and the ensemble average are float32 arrays whose arithmetic
  rounds every result; that rounding is the function \<open>float32\<close> of the world below.
\<close>

type_synonym pixel = "8 word \<times> 8 word \<times> 8 word"
type_synonym rgb_image = "pixel list list"
type_synonym tensor = "real list list list list"
type_synonym probs = "real list list"

text \<open>A loaded Keras model: \<open>m.predict(x)\<close> gives a batch of probability vectors, or raises.\<close>

type_synonym keras_model = "tensor \<Rightarrow> py_exception + probs"

text \<open>
  The calls that leave the module are recorded in order, so that a property can say
  how often and with which arguments the image was read and each model was invoked.
\<close>

datatype event =
    ImageOpen string "nat \<times> nat"
  | LoadImg string "nat \<times> nat"
  | ModelPredict nat tensor
  | RandInt int int

type_synonym 'a run = "event list \<times> (py_exception + 'a)"

text \<open>
  \<open>pil_open_rgb_resize w path size\<close> stands for
  \<open>Image.open(path).convert('RGB').resize(size)\<close> read as an array, and
  \<open>keras_load_img w path size\<close> for \<open>load_img(path, target_size=size)\<close> followed by
  \<open>img_to_array\<close>; both belong to libraries and either returns the pixels or raises.
  \<open>float32 w x\<close> is the float32 value NumPy stores when the exact result of one
  arithmetic step on float32 operands is \<open>x\<close>.
\<close>

record world =
  pil_open_rgb_resize :: "string \<Rightarrow> nat \<times> nat \<Rightarrow> py_exception + rgb_image"
  keras_load_img :: "string \<Rightarrow> nat \<times> nat \<Rightarrow> py_exception + rgb_image"
  float32 :: "real \<Rightarrow> real"

text \<open>
  A finite distribution: the outcomes with their probabilities. A deterministic
  computation has one outcome of probability 1.
\<close>

type_synonym 'a dist = "('a \<times> real) list"

definition certainly :: "'a \<Rightarrow> 'a dist" where
  "certainly x = [(x, 1)]"

text \<open>
  \<open>np.random.randint(low, high)\<close>: NumPy documents a draw from the discrete uniform
  distribution over the half-open interval from \<open>low\<close> to \<open>high\<close>.
\<close>

definition np_random_randint :: "int \<Rightarrow> int \<Rightarrow> int dist" where
  "np_random_randint low high = map (\<lambda>v. (v, 1 / real_of_int (high - low))) [low..high - 1]"

subsection \<open>Module state set up at import time\<close>

text \<open>
  The value of an environment variable is a Python \<open>str\<close>: a sequence of Unicode code
  points. \<open>py_isspace\<close> is the whitespace test of CPython that \<open>str.strip()\<close> uses.
\<close>

type_synonym py_str = "nat list"

definition py :: "string \<Rightarrow> py_str" where
  "py s = map of_char s"

definition py_isspace :: "nat \<Rightarrow> bool" where
  "py_isspace c =
     ((0x09 \<le> c \<and> c \<le> 0x0D) \<or> (0x1C \<le> c \<and> c \<le> 0x20) \<or> c = 0x85 \<or> c = 0xA0
      \<or> c = 0x1680 \<or> (0x2000 \<le> c \<and> c \<le> 0x200A) \<or> c = 0x2028 \<or> c = 0x2029
      \<or> c = 0x202F \<or> c = 0x205F \<or> c = 0x3000)"

definition py_strip :: "py_str \<Rightarrow> py_str" where
  "py_strip s = rev (dropWhile py_isspace (rev (dropWhile py_isspace s)))"

record os_env =
  path_exists :: "string \<Rightarrow> bool"
  load_model :: "string \<Rightarrow> py_exception + keras_model"
  getenv :: "string \<Rightarrow> py_str option"

record module_state =
  models :: "keras_model list"
  MODEL_PRESENT :: bool
  DEMO_MODE :: bool

definition try_load :: "os_env \<Rightarrow> string \<Rightarrow> keras_model option" where
  "try_load env path =
     (if path_exists env path
      then (case load_model env path of Inl e \<Rightarrow> None | Inr m \<Rightarrow> Some m)
      else None)"

definition candidates :: "string list" where
  "candidates =
     [''./models/model2_84percentacc.h5'',
      ''./models/82_test_acc.h5'',
      ''./models/mobilenet_model.keras'',
      ''./models/inceptionv3_80.h5'']"

fun load_each :: "os_env \<Rightarrow> string list \<Rightarrow> keras_model list \<Rightarrow> keras_model list" where
  "load_each env [] ms = ms"
| "load_each env (p # ps) ms =
     (case try_load env p of
        None \<Rightarrow> load_each env ps ms
      | Some m \<Rightarrow> load_each env ps (ms @ [m]))"

text \<open>\<open>os.getenv(name, default)\<close>: the default stands in for an unset variable.\<close>

definition os_getenv :: "os_env \<Rightarrow> string \<Rightarrow> py_str \<Rightarrow> py_str" where
  "os_getenv env name dflt = (case getenv env name of None \<Rightarrow> dflt | Some v \<Rightarrow> v)"

definition import_prediction :: "os_env \<Rightarrow> module_state" where
  "import_prediction env =
     (let ms = load_each env candidates [] in
      \<lparr> models = ms,
        MODEL_PRESENT = (length ms > 0),
        DEMO_MODE = (py_strip (os_getenv env ''SUGARCANE_DEMO_MODE'' (py [])) = py ''1'') \<rparr>)"

subsection \<open>heuristic\_predict\<close>

fun channel :: "nat \<Rightarrow> pixel \<Rightarrow> 8 word" where
  "channel c (r, g, b) = (if c = 0 then r else if c = 1 then g else b)"

text \<open>\<open>arr[:, :, c].mean()\<close>: the mean of channel \<open>c\<close> over all pixels.\<close>

definition channel_mean :: "rgb_image \<Rightarrow> nat \<Rightarrow> real" where
  "channel_mean arr c =
     (\<Sum>p\<leftarrow>concat arr. real (unat (channel c p))) / real (length (concat arr))"

definition heuristic_predict :: "world \<Rightarrow> string \<Rightarrow> int run" where
  "heuristic_predict w image_path =
     (case pil_open_rgb_resize w image_path (128, 128) of
        Inl e \<Rightarrow> ([ImageOpen image_path (128, 128)], Inr 0)
      | Inr arr \<Rightarrow>
          (let Rm = channel_mean arr 0;
               Gm = channel_mean arr 1;
               Bm = channel_mean arr 2;
               brightness = (Rm + Gm + Bm) / 3
           in ([ImageOpen image_path (128, 128)],
               Inr (if Gm - max Rm Bm \<ge> 20 then 0
                    else if Rm > 120 \<and> Gm > 120 \<and> Bm < 100 then 4
                    else if Rm - max Gm Bm \<ge> 20 then 2
                    else if Rm > Gm \<and> Gm > Bm \<and> 60 < brightness \<and> brightness < 180 then 3
                    else 1))))"

subsection \<open>preprocess\_image and predict\_sugarcane\<close>

text \<open>
  \<open>img_to_array\<close> turns the 8-bit values into float32 without error; \<open>img_array /= 255.0\<close>
  divides the float32 array in place, rounding each quotient to float32.
\<close>

definition preprocess_image :: "world \<Rightarrow> string \<Rightarrow> nat \<times> nat \<Rightarrow> tensor run" where
  "preprocess_image w image_path target_sz =
     (case keras_load_img w image_path target_sz of
        Inl e \<Rightarrow> ([LoadImg image_path target_sz], Inl e)
      | Inr img \<Rightarrow>
          (let img_array = map (map (\<lambda>p. [real (unat (channel 0 p)),
                                            real (unat (channel 1 p)),
                                            real (unat (channel 2 p))])) img;
               batch = [img_array]
           in ([LoadImg image_path target_sz],
               Inr (map (map (map (map (\<lambda>v. float32 w (v / 255))))) batch))))"

text \<open>\<open>[m.predict(x) for m in models]\<close>: model \<open>i\<close> of the list is called on \<open>x\<close>; a raise ends the loop.\<close>

fun predict_each :: "keras_model list \<Rightarrow> nat \<Rightarrow> tensor \<Rightarrow> probs list run" where
  "predict_each [] i x = ([], Inr [])"
| "predict_each (m # ms) i x =
     (case m x of
        Inl e \<Rightarrow> ([ModelPredict i x], Inl e)
      | Inr p \<Rightarrow>
          (case predict_each ms (Suc i) x of
             (t, Inl e) \<Rightarrow> (ModelPredict i x # t, Inl e)
           | (t, Inr ps) \<Rightarrow> (ModelPredict i x # t, Inr (p # ps))))"

text \<open>\<open>np.array(preds)\<close>: the outputs stack into one array when they have one shape.\<close>

definition np_array :: "probs list \<Rightarrow> py_exception + probs list" where
  "np_array preds =
     (if list_all (\<lambda>p. map length p = map length (hd preds)) preds then Inr preds
      else Inl (ValueError ''inhomogeneous shape''))"

text \<open>
  \<open>np.mean(a, axis=0)\<close> of a float32 stack of \<open>N\<close> arrays: entry by entry the values
  are added in float32, one array after the other starting from the first, and the sum
  is divided by \<open>N\<close>, the quotient rounded to float32. \<open>rnd\<close> is the rounding.
\<close>

definition np_mean_axis0 :: "(real \<Rightarrow> real) \<Rightarrow> probs list \<Rightarrow> probs" where
  "np_mean_axis0 rnd a =
     (case a of
        [] \<Rightarrow> []
      | p # ps \<Rightarrow>
          map (\<lambda>i. map (\<lambda>j. rnd (foldl (\<lambda>acc q. rnd (acc + q ! i ! j)) (p ! i ! j) ps
                                   / real (length a)))
                       [0..<length (p ! i)])
            [0..<length p])"

text \<open>\<open>np.argmax\<close> of one row: a left-to-right scan that keeps the first maximum.\<close>

fun argmax_scan :: "real list \<Rightarrow> nat \<Rightarrow> nat \<Rightarrow> real \<Rightarrow> nat" where
  "argmax_scan [] i best bv = best"
| "argmax_scan (x # xs) i best bv =
     (if x > bv then argmax_scan xs (Suc i) i x else argmax_scan xs (Suc i) best bv)"

definition argmax_row :: "real list \<Rightarrow> nat" where
  "argmax_row v = (case v of [] \<Rightarrow> 0 | x # xs \<Rightarrow> argmax_scan xs 1 0 x)"

definition np_argmax_axis1 :: "probs \<Rightarrow> py_exception + nat list" where
  "np_argmax_axis1 a =
     (if list_ex (\<lambda>row. row = []) a
      then Inl (ValueError ''attempt to get argmax of an empty sequence'')
      else Inr (map argmax_row a))"

definition predict_sugarcane :: "world \<Rightarrow> module_state \<Rightarrow> string \<Rightarrow> int run dist" where
  "predict_sugarcane w st filepath =
     (if \<not> MODEL_PRESENT st \<or> models st = [] then
        (if DEMO_MODE st
         then map (\<lambda>(v, pr). (([RandInt 0 5], Inr v), pr)) (np_random_randint 0 5)
         else certainly (heuristic_predict w filepath))
      else
        certainly
          (case preprocess_image w filepath (224, 224) of
             (t, Inl e) \<Rightarrow> (t, Inl e)
           | (t, Inr x) \<Rightarrow>
               (case predict_each (models st) 0 x of
                  (t', Inl e) \<Rightarrow> (t @ t', Inl e)
                | (t', Inr preds) \<Rightarrow>
                    (t @ t',
                     case np_array preds of
                       Inl e \<Rightarrow> Inl e
                     | Inr preds_array \<Rightarrow>
                         (let avg_preds = np_mean_axis0 (float32 w) preds_array in
                          case np_argmax_axis1 avg_preds of
                            Inl e \<Rightarrow> Inl e
                          | Inr idx \<Rightarrow>
                              (case idx of
                                 [] \<Rightarrow> Inl (IndexError ''index 0 is out of bounds'')
                               | label_idx # _ \<Rightarrow> Inr (int label_idx)))))))"

subsection \<open>The rules of the heuristic as the specification words them\<close>

text \<open>
  The specification lists four guarded rules in a fixed order and a catch-all; the
  first rule whose guard holds gives the class.
\<close>

type_synonym rgb_means = "real \<times> real \<times> real"

fun green_dominance :: "rgb_means \<Rightarrow> bool" where
  "green_dominance (Rm, Gm, Bm) = (Gm - max Rm Bm \<ge> 20)"

fun yellowish :: "rgb_means \<Rightarrow> bool" where
  "yellowish (Rm, Gm, Bm) = (Rm > 120 \<and> Gm > 120 \<and> Bm < 100)"

fun red_dominance :: "rgb_means \<Rightarrow> bool" where
  "red_dominance (Rm, Gm, Bm) = (Rm - max Gm Bm \<ge> 20)"

fun brownish_moderate :: "rgb_means \<Rightarrow> bool" where
  "brownish_moderate (Rm, Gm, Bm) =
     (Rm > Gm \<and> Gm > Bm \<and> 60 < (Rm + Gm + Bm) / 3 \<and> (Rm + Gm + Bm) / 3 < 180)"

definition ordered_rules :: "((rgb_means \<Rightarrow> bool) \<times> int) list" where
  "ordered_rules =
     [(green_dominance, 0), (yellowish, 4), (red_dominance, 2), (brownish_moderate, 3),
      (\<lambda>m. True, 1)]"

fun first_match :: "((rgb_means \<Rightarrow> bool) \<times> int) list \<Rightarrow> rgb_means \<Rightarrow> int option" where
  "first_match [] m = None"
| "first_match ((guard, cls) # rules) m = (if guard m then Some cls else first_match rules m)"

definition means_of :: "rgb_image \<Rightarrow> rgb_means" where
  "means_of arr = (channel_mean arr 0, channel_mean arr 1, channel_mean arr 2)"

definition uniform_image :: "nat \<Rightarrow> nat \<Rightarrow> pixel \<Rightarrow> rgb_image" where
  "uniform_image h wd p = replicate h (replicate wd p)"

subsection \<open>The ensemble as the specification words it\<close>









section \<open>Crop rotation service (app.py)\<close>

subsection \<open>JSON payloads as Python values\<close>

text \<open>
  The parsed request body: \<open>None\<close>, a bool, a number, a string, a list or a dict with
  string keys. A dict keeps its items in document order; of two items with one key the
  later one counts.
\<close>

datatype py_value =
    PyNone
  | PyBool bool
  | PyNum real
  | PyStr string
  | PyList "py_value list"
  | PyDict "(string \<times> py_value) list"

text \<open>\<open>data.get(key)\<close>: only a dict has the method; a missing key gives \<open>None\<close>.\<close>

definition field :: "(string \<times> py_value) list \<Rightarrow> string \<Rightarrow> py_value" where
  "field kvs key = (case map_of (rev kvs) key of None \<Rightarrow> PyNone | Some v \<Rightarrow> v)"

fun py_get :: "py_value \<Rightarrow> string \<Rightarrow> py_exception + py_value" where
  "py_get (PyDict kvs) key = Inr (field kvs key)"
| "py_get v key = Inl (AttributeError ''object has no attribute get'')"

text \<open>
  \<open>table.get(key, default)\<close> on a table with string keys: a list or a dict as key is
  unhashable and raises; any other key that is not a string of the table gives the default.
\<close>

fun hashable :: "py_value \<Rightarrow> bool" where
  "hashable (PyList xs) = False"
| "hashable (PyDict kvs) = False"
| "hashable v = True"

definition table_get :: "(string \<times> int) list \<Rightarrow> py_value \<Rightarrow> int \<Rightarrow> py_exception + int" where
  "table_get table key dflt =
     (if hashable key
      then Inr (case key of
                  PyStr s \<Rightarrow> (case map_of table s of None \<Rightarrow> dflt | Some code \<Rightarrow> code)
                | _ \<Rightarrow> dflt)
      else Inl (TypeError ''unhashable type''))"

subsection \<open>The static tables\<close>

definition previous_crop_mapping :: "(string \<times> int) list" where
  "previous_crop_mapping =
     [(''Groundnut'', 1), (''Millets'', 2), (''Wheat'', 3), (''Maize'', 4),
      (''Cotton'', 5), (''Sorghum'', 6), (''Barley'', 7)]"

definition soil_type_mapping :: "(string \<times> int) list" where
  "soil_type_mapping = [(''Loamy'', 1), (''Clayey'', 2), (''Sandy'', 3), (''Saline'', 4)]"

definition crop_mapping :: "(int \<times> string) list" where
  "crop_mapping =
     [(1, ''Wheat''), (2, ''Rice''), (3, ''Millets''), (4, ''Cotton''),
      (5, ''Groundnut''), (6, ''Maize''), (7, ''Sorghum''), (8, ''Barley'')]"

subsection \<open>The request handler\<close>

text \<open>The single row of the data frame handed to the classifier, column by column.\<close>

record feature_row =
  Previous_Crop :: int
  Soil_Type :: int
  Moisture_Level :: py_value
  Nitrogen_N :: py_value
  Phosphorus_P :: py_value
  Potassium_K :: py_value

text \<open>
  The unpickled classifier: \<open>crop_model.predict(input_data)\<close> gives an array of class
  labels, or raises. The module keeps \<open>None\<close> when the artifact could not be loaded.
\<close>

type_synonym sk_model = "feature_row \<Rightarrow> py_exception + int list"

record response =
  status :: nat
  body :: py_value

text \<open>
  A handler run: the rows on which \<open>predict\<close> was called, in order, and the outcome.
\<close>

type_synonym 'a handled = "feature_row list \<times> 'a"

text \<open>
  Start-up: \<open>joblib.load\<close> of the artifact; any exception leaves \<open>crop_model = None\<close>.
\<close>

definition import_app :: "(string \<Rightarrow> py_exception + sk_model) \<Rightarrow> sk_model option" where
  "import_app joblib_load =
     (case joblib_load ''crop_rotation_recommendation_model.pkl'' of
        Inl e \<Rightarrow> None
      | Inr m \<Rightarrow> Some m)"

text \<open>Lines 55 to 70: the six fields are read and the two categories are mapped.\<close>

definition input_data :: "py_value \<Rightarrow> py_exception + feature_row" where
  "input_data data =
     raising (py_get data ''Previous Crop'') (\<lambda>previous_crop.
     raising (py_get data ''Soil Type'') (\<lambda>soil_type.
     raising (py_get data ''Moisture Level'') (\<lambda>moisture_level.
     raising (py_get data ''Nitrogen (N)'') (\<lambda>nitrogen.
     raising (py_get data ''Phosphorus (P)'') (\<lambda>phosphorus.
     raising (py_get data ''Potassium (K)'') (\<lambda>potassium.
     raising (table_get previous_crop_mapping previous_crop (- 1)) (\<lambda>pc.
     raising (table_get soil_type_mapping soil_type (- 1)) (\<lambda>so.
       Inr \<lparr> Previous_Crop = pc, Soil_Type = so, Moisture_Level = moisture_level,
             Nitrogen_N = nitrogen, Phosphorus_P = phosphorus, Potassium_K = potassium \<rparr>))))))))"

text \<open>
  The body of the \<open>try\<close> block. \<open>request_json\<close> is what reading \<open>request.json\<close> gives:
  the parsed body, or the exception Flask raises for a body that is not JSON.
\<close>

definition crop_recommendation_body ::
  "sk_model option \<Rightarrow> py_exception + py_value \<Rightarrow> (py_exception + response) handled" where
  "crop_recommendation_body crop_model request_json =
     (case crop_model of
        None \<Rightarrow>
          ([], Inr \<lparr> status = 500,
                     body = PyDict [(''error'',
                       PyStr ''Model not loaded. Ensure crop_rotation_recommendation_model.pkl exists.'')] \<rparr>)
      | Some m \<Rightarrow>
          (case request_json of
             Inl e \<Rightarrow> ([], Inl e)
           | Inr data \<Rightarrow>
               (case input_data data of
                  Inl e \<Rightarrow> ([], Inl e)
                | Inr row \<Rightarrow>
                    (case m row of
                       Inl e \<Rightarrow> ([row], Inl e)
                     | Inr prediction \<Rightarrow>
                         (case prediction of
                            [] \<Rightarrow> ([row], Inl (IndexError ''index 0 is out of bounds''))
                          | p0 # _ \<Rightarrow>
                              (case map_of crop_mapping p0 of
                                 Some recommended_crop \<Rightarrow>
                                   ([row], Inr \<lparr> status = 200,
                                     body = PyDict [(''Recommended Crop'', PyStr recommended_crop)] \<rparr>)
                               | None \<Rightarrow>
                                   ([row], Inr \<lparr> status = 200,
                                     body = PyDict [(''Recommended Crop'',
                                       PyStr ''No prediction available'')] \<rparr>)))))))"

text \<open>The handler: \<open>except Exception as e\<close> turns a raise of the body into an error body.\<close>

definition crop_recommendation ::
  "sk_model option \<Rightarrow> py_exception + py_value \<Rightarrow> response handled" where
  "crop_recommendation crop_model request_json =
     (case crop_recommendation_body crop_model request_json of
        (calls, Inl e) \<Rightarrow> (calls, \<lparr> status = 200, body = PyDict [(''error'', PyStr (exc_str e))] \<rparr>)
      | (calls, Inr r) \<Rightarrow> (calls, r))"

subsection \<open>Terms of the specification for the crop service\<close>

text \<open>
  A category field counts as absent or unrecognised when it is \<open>None\<close> (a missing key
  reads as \<open>None\<close>) or a string that is no key of the table. The two response bodies
  the specification names are an error body and a recommendation body.
\<close>

definition absent_or_unknown :: "(string \<times> int) list \<Rightarrow> py_value \<Rightarrow> bool" where
  "absent_or_unknown table v =
     (case v of PyNone \<Rightarrow> True | PyStr s \<Rightarrow> map_of table s = None | _ \<Rightarrow> False)"

definition error_body :: "string \<Rightarrow> py_value" where
  "error_body msg = PyDict [(''error'', PyStr msg)]"

definition recommended :: "string \<Rightarrow> py_value" where
  "recommended name = PyDict [(''Recommended Crop'', PyStr name)]"

subsection \<open>Concrete worlds used to instantiate the theorems\<close>

text \<open>
  IEEE 754 single precision, round to nearest with ties to even, for results of magnitude
  below \<open>2 ^ 128\<close>: 24 significant bits, exponents from -126 (below that the spacing of
  the subnormal numbers).
\<close>

definition pow2 :: "int \<Rightarrow> real" where
  "pow2 e = (if 0 \<le> e then 2 ^ nat e else 1 / 2 ^ nat (- e))"

definition round_half_even :: "real \<Rightarrow> int" where
  "round_half_even y =
     (let f = \<lfloor>y\<rfloor> in
      if y - of_int f < 1 / 2 then f
      else if y - of_int f > 1 / 2 then f + 1
      else if even f then f else f + 1)"

definition ieee_single :: "real \<Rightarrow> real" where
  "ieee_single x =
     (if x = 0 then 0
      else (let e = max \<lfloor>log 2 \<bar>x\<bar>\<rfloor> (- 126);
                ulp = pow2 (e - 23)
            in of_int (round_half_even (x / ulp)) * ulp))"

definition uniform_world :: "pixel \<Rightarrow> world" where
  "uniform_world p =
     \<lparr> pil_open_rgb_resize = (\<lambda>path sz. Inr (uniform_image (fst sz) (snd sz) p)),
       keras_load_img = (\<lambda>path sz. Inr (uniform_image (fst sz) (snd sz) p)),
       float32 = ieee_single \<rparr>"

definition unreadable_world :: world where
  "unreadable_world =
     \<lparr> pil_open_rgb_resize = (\<lambda>path sz. Inl (PyException ''FileNotFoundError'' path)),
       keras_load_img = (\<lambda>path sz. Inl (PyException ''FileNotFoundError'' path)),
       float32 = ieee_single \<rparr>"

definition missing_artifact :: "string \<Rightarrow> py_exception + sk_model" where
  "missing_artifact path = Inl (PyException ''FileNotFoundError'' path)"

definition constant_model :: "int list \<Rightarrow> sk_model" where
  "constant_model labels = (\<lambda>row. Inr labels)"

definition bare_env :: "py_str option \<Rightarrow> os_env" where
  "bare_env v =
     \<lparr> path_exists = (\<lambda>path. False),
       load_model = (\<lambda>path. Inl (PyException ''OSError'' path)),
       getenv = (\<lambda>name. if name = ''SUGARCANE_DEMO_MODE'' then v else None) \<rparr>"

definition full_request :: py_value where
  "full_request =
     PyDict [(''Previous Crop'', PyStr ''Wheat''), (''Soil Type'', PyStr ''Loamy''),
             (''Moisture Level'', PyNum 40), (''Nitrogen (N)'', PyNum 10),
             (''Phosphorus (P)'', PyNum 5), (''Potassium (K)'', PyNum 7)]"

definition full_row :: feature_row where
  "full_row = \<lparr> Previous_Crop = 3, Soil_Type = 1, Moisture_Level = PyNum 40,
                 Nitrogen_N = PyNum 10, Phosphorus_P = PyNum 5, Potassium_K = PyNum 7 \<rparr>"

definition categories_only :: "(string \<times> py_value) list" where
  "categories_only = [(''Previous Crop'', PyStr ''Wheat''), (''Soil Type'', PyStr ''Loamy'')]"

definition categories_only_row :: feature_row where
  "categories_only_row = \<lparr> Previous_Crop = 3, Soil_Type = 1, Moisture_Level = PyNone,
                 Nitrogen_N = PyNone, Phosphorus_P = PyNone, Potassium_K = PyNone \<rparr>"




section \<open>Properties of the sugarcane heuristic\<close>

lemma channel_mean_uniform:
  assumes "0 < h" "0 < wd"
  shows "channel_mean (uniform_image h wd p) c = real (unat (channel c p))"
proof -
  have cc: "concat (replicate h (replicate wd p)) = replicate (h * wd) p"
    by (induction h) (simp_all add: replicate_add)
  have "0 < h * wd" using assms by simp
  then show ?thesis
    by (simp add: channel_mean_def uniform_image_def cc sum_list_replicate)
qed

lemma means_of_uniform:
  "0 < h \<Longrightarrow> 0 < wd \<Longrightarrow>
   means_of (uniform_image h wd (r, g, b)) = (real (unat r), real (unat g), real (unat b))"
  by (simp add: means_of_def channel_mean_uniform)

lemma heuristic_predict_readable:
  assumes "pil_open_rgb_resize w path (128, 128) = Inr arr"
      and "means_of arr = (Rm, Gm, Bm)"
  shows "heuristic_predict w path =
     ([ImageOpen path (128, 128)],
      Inr (if Gm - max Rm Bm \<ge> 20 then 0
           else if Rm > 120 \<and> Gm > 120 \<and> Bm < 100 then 4
           else if Rm - max Gm Bm \<ge> 20 then 2
           else if Rm > Gm \<and> Gm > Bm \<and> 60 < (Rm + Gm + Bm) / 3 \<and> (Rm + Gm + Bm) / 3 < 180 then 3
           else 1))"
  using assms by (simp add: heuristic_predict_def means_of_def Let_def)

lemma first_match_ordered_rules:
  "first_match ordered_rules (Rm, Gm, Bm) =
     Some (if Gm - max Rm Bm \<ge> 20 then 0
           else if Rm > 120 \<and> Gm > 120 \<and> Bm < 100 then 4
           else if Rm - max Gm Bm \<ge> 20 then 2
           else if Rm > Gm \<and> Gm > Bm \<and> 60 < (Rm + Gm + Bm) / 3 \<and> (Rm + Gm + Bm) / 3 < 180 then 3
           else 1)"
  by (simp add: ordered_rules_def)

text \<open>
  Claim C1. For a readable image the class is a function of the three channel means
  of the 128 x 128 image alone: it is the class of the first of the five ordered rules
  (green dominance 0, yellowish 4, red dominance 2, brownish with moderate brightness 3,
  catch-all 1) whose guard holds, so exactly one class in 0..4 comes out. Means
  (200, 80, 80) give class 2, (50, 200, 50) class 0, (150, 150, 50) class 4 and
  (100, 100, 100) class 1.
\<close>

theorem heuristic_predict_ordered_rules:
  assumes "pil_open_rgb_resize w path (128, 128) = Inr arr"
  shows "(\<exists>c. first_match ordered_rules (means_of arr) = Some c
              \<and> heuristic_predict w path = ([ImageOpen path (128, 128)], Inr c)
              \<and> c \<in> {0, 1, 2, 3, 4})
       \<and> (means_of arr = (200, 80, 80) \<longrightarrow> snd (heuristic_predict w path) = Inr 2)
       \<and> (means_of arr = (50, 200, 50) \<longrightarrow> snd (heuristic_predict w path) = Inr 0)
       \<and> (means_of arr = (150, 150, 50) \<longrightarrow> snd (heuristic_predict w path) = Inr 4)
       \<and> (means_of arr = (100, 100, 100) \<longrightarrow> snd (heuristic_predict w path) = Inr 1)"
proof -
  obtain Rm Gm Bm where m: "means_of arr = (Rm, Gm, Bm)"
    by (cases "means_of arr") auto
  note hp = heuristic_predict_readable [OF assms]
  have "\<exists>c. first_match ordered_rules (means_of arr) = Some c
              \<and> heuristic_predict w path = ([ImageOpen path (128, 128)], Inr c)
              \<and> c \<in> {0, 1, 2, 3, 4}"
    unfolding m first_match_ordered_rules hp [OF m] by simp
  moreover have "means_of arr = (200, 80, 80) \<longrightarrow> snd (heuristic_predict w path) = Inr 2"
    by (auto simp: hp)
  moreover have "means_of arr = (50, 200, 50) \<longrightarrow> snd (heuristic_predict w path) = Inr 0"
    by (auto simp: hp)
  moreover have "means_of arr = (150, 150, 50) \<longrightarrow> snd (heuristic_predict w path) = Inr 4"
    by (auto simp: hp)
  moreover have "means_of arr = (100, 100, 100) \<longrightarrow> snd (heuristic_predict w path) = Inr 1"
    by (auto simp: hp)
  ultimately show ?thesis by blast
qed

text \<open>
  The theorem at a uniform 128 x 128 image of the pixel (200, 80, 80).
\<close>

theorem heuristic_predict_ordered_rules_witness:
  "pil_open_rgb_resize (uniform_world (200, 80, 80)) ''leaf.png'' (128, 128)
      = Inr (uniform_image 128 128 (200, 80, 80))
   \<and> means_of (uniform_image 128 128 (200, 80, 80)) = (200, 80, 80)
   \<and> first_match ordered_rules (200, 80, 80) = Some 2
   \<and> heuristic_predict (uniform_world (200, 80, 80)) ''leaf.png''
        = ([ImageOpen ''leaf.png'' (128, 128)], Inr 2)"
proof -
  have r: "pil_open_rgb_resize (uniform_world (200, 80, 80)) ''leaf.png'' (128, 128)
      = Inr (uniform_image 128 128 (200, 80, 80))"
    by (simp add: uniform_world_def)
  have m: "means_of (uniform_image 128 128 (200, 80, 80)) = (200, 80, 80)"
    by (simp add: means_of_uniform)
  from heuristic_predict_ordered_rules [OF r] m
  have "snd (heuristic_predict (uniform_world (200, 80, 80)) ''leaf.png'') = Inr 2"
    by blast
  moreover from heuristic_predict_ordered_rules [OF r]
  have "fst (heuristic_predict (uniform_world (200, 80, 80)) ''leaf.png'')
          = [ImageOpen ''leaf.png'' (128, 128)]"
    by auto
  ultimately have "heuristic_predict (uniform_world (200, 80, 80)) ''leaf.png''
        = ([ImageOpen ''leaf.png'' (128, 128)], Inr 2)"
    by (simp add: prod_eq_iff)
  moreover have "first_match ordered_rules (200, 80, 80) = Some 2"
    by (simp add: ordered_rules_def)
  ultimately show ?thesis using r m by simp
qed

text \<open>
  Claim C3 as stated (means (140, 100, 60) give class 3) fails: on the uniform image of
  the pixel (140, 100, 60) the class is not 3.
\<close>

theorem heuristic_140_100_60_counterexample:
  "means_of (uniform_image 128 128 (140, 100, 60)) = (140, 100, 60)
   \<and> snd (heuristic_predict (uniform_world (140, 100, 60)) ''leaf.png'') \<noteq> Inr 3"
  by (simp add: means_of_uniform
      heuristic_predict_readable [where arr = "uniform_image 128 128 (140, 100, 60)"
        and Rm = 140 and Gm = 100 and Bm = 60]
      uniform_world_def)

text \<open>
  Claim C3, amended. For an image whose channel means are (140, 100, 60) the heuristic
  returns class 2 (RedRot): the red-dominance rule (140 - max 100 60 = 40, at least 20)
  stands before the Rust rule and fires first.
\<close>

theorem heuristic_140_100_60_red_rot:
  assumes "pil_open_rgb_resize w path (128, 128) = Inr arr"
      and "means_of arr = (140, 100, 60)"
  shows "heuristic_predict w path = ([ImageOpen path (128, 128)], Inr 2)"
  by (simp add: heuristic_predict_readable [OF assms])

text \<open>
  The amended claim at the uniform 128 x 128 image of the pixel (140, 100, 60).
\<close>

theorem heuristic_140_100_60_red_rot_witness:
  "pil_open_rgb_resize (uniform_world (140, 100, 60)) ''leaf.png'' (128, 128)
      = Inr (uniform_image 128 128 (140, 100, 60))
   \<and> means_of (uniform_image 128 128 (140, 100, 60)) = (140, 100, 60)
   \<and> heuristic_predict (uniform_world (140, 100, 60)) ''leaf.png''
        = ([ImageOpen ''leaf.png'' (128, 128)], Inr 2)"
proof -
  have r: "pil_open_rgb_resize (uniform_world (140, 100, 60)) ''leaf.png'' (128, 128)
      = Inr (uniform_image 128 128 (140, 100, 60))"
    by (simp add: uniform_world_def)
  have m: "means_of (uniform_image 128 128 (140, 100, 60)) = (140, 100, 60)"
    by (simp add: means_of_uniform)
  show ?thesis using heuristic_140_100_60_red_rot [OF r m] r m by simp
qed

text \<open>
  Claim C4. When reading the image raises, whatever the exception,
  \<open>heuristic_predict\<close> returns class 0 and raises nothing.
\<close>

theorem heuristic_predict_unreadable:
  assumes "pil_open_rgb_resize w path (128, 128) = Inl e"
  shows "heuristic_predict w path = ([ImageOpen path (128, 128)], Inr 0)"
  using assms by (simp add: heuristic_predict_def)

text \<open>
  The theorem at a path that cannot be opened.
\<close>

theorem heuristic_predict_unreadable_witness:
  "pil_open_rgb_resize unreadable_world ''missing.png'' (128, 128)
      = Inl (PyException ''FileNotFoundError'' ''missing.png'')
   \<and> heuristic_predict unreadable_world ''missing.png''
        = ([ImageOpen ''missing.png'' (128, 128)], Inr 0)"
proof -
  have r: "pil_open_rgb_resize unreadable_world ''missing.png'' (128, 128)
      = Inl (PyException ''FileNotFoundError'' ''missing.png'')"
    by (simp add: unreadable_world_def)
  show ?thesis using heuristic_predict_unreadable [OF r] r by simp
qed

section \<open>Properties of the model ensemble\<close>
























section \<open>Properties of demo mode\<close>

lemma py_one: "py ''1'' = [49]"
  by (simp add: py_def)

lemma py_examples:
  "py '' 1 '' = [32, 49, 32]" "py ''true'' = [116, 114, 117, 101]"
  "py ''yes'' = [121, 101, 115]" "py ''0'' = [48]" "py [] = []"
  by (simp_all add: py_def)

lemma not_space_49: "\<not> py_isspace 49"
  by (simp add: py_isspace_def)

lemma py_strip_eq_one_iff:
  "py_strip v = [49] \<longleftrightarrow>
     (\<exists>a b. v = a @ [49] @ b \<and> list_all py_isspace a \<and> list_all py_isspace b)"
proof
  assume s: "py_strip v = [49]"
  define a where "a = takeWhile py_isspace v"
  define u where "u = rev (dropWhile py_isspace v)"
  define b where "b = rev (takeWhile py_isspace u)"
  have "rev (dropWhile py_isspace u) = [49]"
    using s by (simp add: py_strip_def u_def)
  then have d: "dropWhile py_isspace u = [49]"
    by (metis rev_singleton_conv)
  have "u = takeWhile py_isspace u @ dropWhile py_isspace u"
    by simp
  then have "rev u = [49] @ b"
    unfolding d b_def by (metis rev_append rev_singleton_conv)
  then have "dropWhile py_isspace v = [49] @ b"
    by (simp add: u_def)
  moreover have "v = a @ dropWhile py_isspace v"
    by (simp add: a_def)
  ultimately have "v = a @ [49] @ b" by simp
  moreover have "list_all py_isspace a"
    by (simp add: a_def list_all_iff) (meson set_takeWhileD)
  moreover have "list_all py_isspace b"
    by (simp add: b_def list_all_iff) (meson set_takeWhileD)
  ultimately show "\<exists>a b. v = a @ [49] @ b \<and> list_all py_isspace a \<and> list_all py_isspace b"
    by blast
next
  assume "\<exists>a b. v = a @ [49] @ b \<and> list_all py_isspace a \<and> list_all py_isspace b"
  then obtain a b where v: "v = a @ [49] @ b"
    and a: "list_all py_isspace a" and b: "list_all py_isspace b"
    by blast
  have 1: "dropWhile py_isspace v = [49] @ b"
    using a not_space_49 by (simp add: v list_all_iff dropWhile_append)
  have 2: "dropWhile py_isspace (rev b @ [49]) = [49]"
    using b not_space_49 by (simp add: list_all_iff dropWhile_append)
  show "py_strip v = [49]"
    by (simp add: py_strip_def 1 2)
qed

lemma load_each_bare: "load_each (bare_env v) ps ms = ms"
  by (induction ps arbitrary: ms) (simp_all add: try_load_def bare_env_def)

lemma predict_sugarcane_no_models:
  "models st = [] \<Longrightarrow>
   predict_sugarcane w st filepath =
     (if DEMO_MODE st
      then map (\<lambda>(v, pr). (([RandInt 0 5], Inr v), pr)) (np_random_randint 0 5)
      else certainly (heuristic_predict w filepath))"
  by (simp add: predict_sugarcane_def)

lemma randint_0_5:
  "np_random_randint 0 5 = [(0, 1/5), (1, 1/5), (2, 1/5), (3, 1/5), (4, 1/5)]"
proof -
  have "[0..4::int] = [0, 1, 2, 3, 4]" by code_simp
  then show ?thesis by (simp add: np_random_randint_def)
qed

text \<open>
  Claim C9. With no model loaded and demo mode on, a call has exactly five possible
  outcomes, the classes 0 to 4, each of probability 1/5; none of them is a raise and
  none lies outside 0..4.
\<close>

theorem demo_mode_uniform_draw:
  assumes "models st = []" and "DEMO_MODE st"
  shows "predict_sugarcane w st filepath =
     [(([RandInt 0 5], Inr 0), 1/5), (([RandInt 0 5], Inr 1), 1/5), (([RandInt 0 5], Inr 2), 1/5),
      (([RandInt 0 5], Inr 3), 1/5), (([RandInt 0 5], Inr 4), 1/5)]"
  using assms by (simp add: predict_sugarcane_no_models randint_0_5)

text \<open>
  The theorem at the module state of a start-up that finds no model file, with
  \<open>SUGARCANE_DEMO_MODE=1\<close>.
\<close>

theorem demo_mode_uniform_draw_witness:
  "models (import_prediction (bare_env (Some (py ''1'')))) = []
   \<and> DEMO_MODE (import_prediction (bare_env (Some (py ''1''))))
   \<and> predict_sugarcane unreadable_world (import_prediction (bare_env (Some (py ''1'')))) ''leaf.png'' =
     [(([RandInt 0 5], Inr 0), 1/5), (([RandInt 0 5], Inr 1), 1/5), (([RandInt 0 5], Inr 2), 1/5),
      (([RandInt 0 5], Inr 3), 1/5), (([RandInt 0 5], Inr 4), 1/5)]"
proof -
  have m: "models (import_prediction (bare_env (Some (py ''1'')))) = []"
    by (simp add: import_prediction_def Let_def load_each_bare)
  have d: "DEMO_MODE (import_prediction (bare_env (Some (py ''1''))))"
    by (simp add: import_prediction_def Let_def os_getenv_def bare_env_def py_one py_strip_def not_space_49)
  show ?thesis using demo_mode_uniform_draw [OF m d] m d by simp
qed

text \<open>
  Claim C10. Demo mode is on exactly when the value of \<open>SUGARCANE_DEMO_MODE\<close>
  (the empty string when unset), stripped of surrounding whitespace, is \<open>1\<close>, that is,
  when the value is \<open>1\<close> between two runs of whitespace. The value \<open>1\<close> between
  blanks turns it on; \<open>true\<close>, \<open>yes\<close>, \<open>0\<close> and an unset variable leave it off, and
  then, with no model loaded, the heuristic runs instead of the random draw.
\<close>

theorem demo_mode_toggle:
  "(DEMO_MODE (import_prediction env) \<longleftrightarrow>
      py_strip (os_getenv env ''SUGARCANE_DEMO_MODE'' (py [])) = py ''1'')
   \<and> (DEMO_MODE (import_prediction env) \<longleftrightarrow>
      (\<exists>a b. os_getenv env ''SUGARCANE_DEMO_MODE'' (py []) = a @ py ''1'' @ b
             \<and> list_all py_isspace a \<and> list_all py_isspace b))
   \<and> (getenv env ''SUGARCANE_DEMO_MODE'' = Some (py '' 1 '') \<longrightarrow> DEMO_MODE (import_prediction env))
   \<and> (getenv env ''SUGARCANE_DEMO_MODE'' = Some (py ''true'') \<longrightarrow> \<not> DEMO_MODE (import_prediction env))
   \<and> (getenv env ''SUGARCANE_DEMO_MODE'' = Some (py ''yes'') \<longrightarrow> \<not> DEMO_MODE (import_prediction env))
   \<and> (getenv env ''SUGARCANE_DEMO_MODE'' = Some (py ''0'') \<longrightarrow> \<not> DEMO_MODE (import_prediction env))
   \<and> (getenv env ''SUGARCANE_DEMO_MODE'' = None \<longrightarrow> \<not> DEMO_MODE (import_prediction env))
   \<and> (models (import_prediction env) = [] \<and> \<not> DEMO_MODE (import_prediction env) \<longrightarrow>
        predict_sugarcane w (import_prediction env) filepath
          = certainly (heuristic_predict w filepath))"
proof -
  have d: "DEMO_MODE (import_prediction env) \<longleftrightarrow>
      py_strip (os_getenv env ''SUGARCANE_DEMO_MODE'' (py [])) = py ''1''"
    by (simp add: import_prediction_def Let_def)
  have e: "DEMO_MODE (import_prediction env) \<longleftrightarrow>
      (\<exists>a b. os_getenv env ''SUGARCANE_DEMO_MODE'' (py []) = a @ py ''1'' @ b
             \<and> list_all py_isspace a \<and> list_all py_isspace b)"
    unfolding d py_one by (rule py_strip_eq_one_iff)
  have sp: "py_isspace 32" by (simp add: py_isspace_def)
  have ns: "\<not> py_isspace 116" "\<not> py_isspace 101" "\<not> py_isspace 121" "\<not> py_isspace 115"
    "\<not> py_isspace 48"
    by (simp_all add: py_isspace_def)
  have 1: "getenv env ''SUGARCANE_DEMO_MODE'' = Some (py '' 1 '') \<longrightarrow> DEMO_MODE (import_prediction env)"
    by (simp add: d os_getenv_def py_examples py_one py_strip_def sp not_space_49)
  have 2: "getenv env ''SUGARCANE_DEMO_MODE'' = Some (py ''true'') \<longrightarrow> \<not> DEMO_MODE (import_prediction env)"
    by (simp add: d os_getenv_def py_examples py_one py_strip_def ns)
  have 3: "getenv env ''SUGARCANE_DEMO_MODE'' = Some (py ''yes'') \<longrightarrow> \<not> DEMO_MODE (import_prediction env)"
    by (simp add: d os_getenv_def py_examples py_one py_strip_def ns)
  have 4: "getenv env ''SUGARCANE_DEMO_MODE'' = Some (py ''0'') \<longrightarrow> \<not> DEMO_MODE (import_prediction env)"
    by (simp add: d os_getenv_def py_examples py_one py_strip_def ns)
  have 5: "getenv env ''SUGARCANE_DEMO_MODE'' = None \<longrightarrow> \<not> DEMO_MODE (import_prediction env)"
    by (simp add: d os_getenv_def py_examples py_one py_strip_def)
  have 6: "models (import_prediction env) = [] \<and> \<not> DEMO_MODE (import_prediction env) \<longrightarrow>
        predict_sugarcane w (import_prediction env) filepath
          = certainly (heuristic_predict w filepath)"
    by (simp add: predict_sugarcane_no_models)
  show ?thesis using d e 1 2 3 4 5 6 by blast
qed

text \<open>
  The theorem at the values \<open>1\<close> between blanks (on) and \<open>true\<close> (off, heuristic).
\<close>

theorem demo_mode_toggle_witness:
  "getenv (bare_env (Some (py '' 1 ''))) ''SUGARCANE_DEMO_MODE'' = Some (py '' 1 '')
   \<and> DEMO_MODE (import_prediction (bare_env (Some (py '' 1 ''))))
   \<and> getenv (bare_env (Some (py ''true''))) ''SUGARCANE_DEMO_MODE'' = Some (py ''true'')
   \<and> models (import_prediction (bare_env (Some (py ''true'')))) = []
   \<and> \<not> DEMO_MODE (import_prediction (bare_env (Some (py ''true''))))
   \<and> predict_sugarcane (uniform_world (50, 200, 50)) (import_prediction (bare_env (Some (py ''true''))))
        ''leaf.png''
       = certainly (heuristic_predict (uniform_world (50, 200, 50)) ''leaf.png'')"
proof -
  have g1: "getenv (bare_env (Some (py '' 1 ''))) ''SUGARCANE_DEMO_MODE'' = Some (py '' 1 '')"
    and g2: "getenv (bare_env (Some (py ''true''))) ''SUGARCANE_DEMO_MODE'' = Some (py ''true'')"
    by (simp_all add: bare_env_def)
  have m: "models (import_prediction (bare_env (Some (py ''true'')))) = []"
    by (simp add: import_prediction_def Let_def load_each_bare)
  from demo_mode_toggle [of "bare_env (Some (py '' 1 ''))"] g1
  have d1: "DEMO_MODE (import_prediction (bare_env (Some (py '' 1 ''))))"
    by blast
  note t = demo_mode_toggle
    [of "bare_env (Some (py ''true''))" "uniform_world (50, 200, 50)" "''leaf.png''"]
  from t g2 have d2: "\<not> DEMO_MODE (import_prediction (bare_env (Some (py ''true''))))"
    by blast
  from t m d2
  have "predict_sugarcane (uniform_world (50, 200, 50))
          (import_prediction (bare_env (Some (py ''true'')))) ''leaf.png''
       = certainly (heuristic_predict (uniform_world (50, 200, 50)) ''leaf.png'')"
    by blast
  then show ?thesis using g1 g2 m d1 d2 by simp
qed

section \<open>Properties of the crop service\<close>

lemma input_data_dict:
  "input_data (PyDict kvs) =
     raising (table_get previous_crop_mapping (field kvs ''Previous Crop'') (- 1)) (\<lambda>pc.
     raising (table_get soil_type_mapping (field kvs ''Soil Type'') (- 1)) (\<lambda>so.
       Inr \<lparr> Previous_Crop = pc, Soil_Type = so,
             Moisture_Level = field kvs ''Moisture Level'',
             Nitrogen_N = field kvs ''Nitrogen (N)'',
             Phosphorus_P = field kvs ''Phosphorus (P)'',
             Potassium_K = field kvs ''Potassium (K)'' \<rparr>))"
  by (simp add: input_data_def raising_def)

lemma table_get_hashable:
  "hashable v \<Longrightarrow> \<exists>c. table_get table v d = Inr c"
  by (simp add: table_get_def)

lemma table_get_absent_or_unknown:
  "absent_or_unknown table v \<Longrightarrow> table_get table v d = Inr d"
  by (cases v) (simp_all add: table_get_def absent_or_unknown_def)

lemma absent_or_unknown_hashable: "absent_or_unknown table v \<Longrightarrow> hashable v"
  by (cases v) (simp_all add: absent_or_unknown_def)

lemma input_data_full_request: "input_data full_request = Inr full_row"
  by (simp add: full_request_def full_row_def input_data_dict raising_def field_def
      table_get_def previous_crop_mapping_def soil_type_mapping_def)

lemma input_data_categories_only: "input_data (PyDict categories_only) = Inr categories_only_row"
  by (simp add: categories_only_def categories_only_row_def input_data_dict raising_def field_def
      table_get_def previous_crop_mapping_def soil_type_mapping_def)

text \<open>
  Claim C5. A Previous Crop or Soil Type that is \<open>None\<close> (an absent field reads as
  \<open>None\<close>) or a string outside its table is mapped to exactly -1 and the lookup raises
  nothing; in a request object whose two category fields are hashable the row is built,
  with -1 in the column of every such field.
\<close>

theorem unknown_category_minus_one:
  "(absent_or_unknown previous_crop_mapping v \<longrightarrow>
      table_get previous_crop_mapping v (- 1) = Inr (- 1))
   \<and> (absent_or_unknown soil_type_mapping v \<longrightarrow>
      table_get soil_type_mapping v (- 1) = Inr (- 1))
   \<and> (map_of (rev kvs) ''Previous Crop'' = None \<longrightarrow>
      absent_or_unknown previous_crop_mapping (field kvs ''Previous Crop''))
   \<and> (map_of (rev kvs) ''Soil Type'' = None \<longrightarrow>
      absent_or_unknown soil_type_mapping (field kvs ''Soil Type''))
   \<and> (hashable (field kvs ''Previous Crop'') \<and> hashable (field kvs ''Soil Type'') \<longrightarrow>
      (\<exists>row. input_data (PyDict kvs) = Inr row
         \<and> (absent_or_unknown previous_crop_mapping (field kvs ''Previous Crop'')
              \<longrightarrow> Previous_Crop row = - 1)
         \<and> (absent_or_unknown soil_type_mapping (field kvs ''Soil Type'')
              \<longrightarrow> Soil_Type row = - 1)))"
proof -
  have rows: "\<exists>row. input_data (PyDict kvs) = Inr row
         \<and> (absent_or_unknown previous_crop_mapping (field kvs ''Previous Crop'')
              \<longrightarrow> Previous_Crop row = - 1)
         \<and> (absent_or_unknown soil_type_mapping (field kvs ''Soil Type'')
              \<longrightarrow> Soil_Type row = - 1)"
    if h: "hashable (field kvs ''Previous Crop'')" "hashable (field kvs ''Soil Type'')"
  proof -
    obtain pc where pc: "table_get previous_crop_mapping (field kvs ''Previous Crop'') (- 1) = Inr pc"
      using table_get_hashable [OF h(1)] by blast
    obtain so where so: "table_get soil_type_mapping (field kvs ''Soil Type'') (- 1) = Inr so"
      using table_get_hashable [OF h(2)] by blast
    have "absent_or_unknown previous_crop_mapping (field kvs ''Previous Crop'') \<Longrightarrow> pc = - 1"
      using table_get_absent_or_unknown [of previous_crop_mapping _ "- 1"] pc by fastforce
    moreover have "absent_or_unknown soil_type_mapping (field kvs ''Soil Type'') \<Longrightarrow> so = - 1"
      using table_get_absent_or_unknown [of soil_type_mapping _ "- 1"] so by fastforce
    ultimately show ?thesis
      using pc so by (auto simp: input_data_dict raising_def)
  qed
  have absent: "map_of (rev kvs) key = None \<longrightarrow> absent_or_unknown table (field kvs key)"
    for key table
    by (simp add: field_def absent_or_unknown_def)
  show ?thesis
    using rows absent [of "''Previous Crop''" previous_crop_mapping]
      absent [of "''Soil Type''" soil_type_mapping]
      table_get_absent_or_unknown [of previous_crop_mapping v "- 1"]
      table_get_absent_or_unknown [of soil_type_mapping v "- 1"]
    by blast
qed

text \<open>
  The theorem at a request with the unknown crop \<open>Rice\<close> and no soil type.
\<close>

theorem unknown_category_minus_one_witness:
  "map_of (rev [(''Previous Crop'', PyStr ''Rice''), (''Moisture Level'', PyNum 40)]) ''Soil Type'' = None
   \<and> absent_or_unknown previous_crop_mapping (PyStr ''Rice'')
   \<and> table_get previous_crop_mapping (PyStr ''Rice'') (- 1) = Inr (- 1)
   \<and> absent_or_unknown soil_type_mapping PyNone
   \<and> table_get soil_type_mapping PyNone (- 1) = Inr (- 1)
   \<and> input_data (PyDict [(''Previous Crop'', PyStr ''Rice''), (''Moisture Level'', PyNum 40)])
       = Inr \<lparr> Previous_Crop = - 1, Soil_Type = - 1, Moisture_Level = PyNum 40,
               Nitrogen_N = PyNone, Phosphorus_P = PyNone, Potassium_K = PyNone \<rparr>"
proof -
  let ?kvs = "[(''Previous Crop'', PyStr ''Rice''), (''Moisture Level'', PyNum 40)]"
  have f1: "field ?kvs ''Previous Crop'' = PyStr ''Rice''"
    and f2: "field ?kvs ''Soil Type'' = PyNone"
    and m2: "map_of (rev ?kvs) ''Soil Type'' = None"
    by (simp_all add: field_def)
  have h: "hashable (field ?kvs ''Previous Crop'') \<and> hashable (field ?kvs ''Soil Type'')"
    by (simp add: f1 f2)
  have a1: "absent_or_unknown previous_crop_mapping (PyStr ''Rice'')"
    by (simp add: absent_or_unknown_def previous_crop_mapping_def)
  have a2: "absent_or_unknown soil_type_mapping PyNone"
    by (simp add: absent_or_unknown_def)
  note t1 = unknown_category_minus_one [of "PyStr ''Rice''" ?kvs]
  note t2 = unknown_category_minus_one [of PyNone ?kvs]
  from t1 a1 have g1: "table_get previous_crop_mapping (PyStr ''Rice'') (- 1) = Inr (- 1)"
    by blast
  from t2 a2 have g2: "table_get soil_type_mapping PyNone (- 1) = Inr (- 1)"
    by blast
  from t1 h a1 a2
  obtain row where r: "input_data (PyDict ?kvs) = Inr row"
    and "Previous_Crop row = - 1" and "Soil_Type row = - 1"
    unfolding f1 f2 by blast
  moreover have "\<exists>pc so. input_data (PyDict ?kvs) =
      Inr \<lparr> Previous_Crop = pc, Soil_Type = so, Moisture_Level = PyNum 40,
               Nitrogen_N = PyNone, Phosphorus_P = PyNone, Potassium_K = PyNone \<rparr>"
    by (simp add: input_data_dict raising_def field_def table_get_def)
  ultimately have "input_data (PyDict ?kvs) =
      Inr \<lparr> Previous_Crop = - 1, Soil_Type = - 1, Moisture_Level = PyNum 40,
               Nitrogen_N = PyNone, Phosphorus_P = PyNone, Potassium_K = PyNone \<rparr>"
    by auto
  then show ?thesis using m2 a1 a2 g1 g2 by simp
qed

lemma crop_mapping_None: "map_of crop_mapping k = None \<longleftrightarrow> k < 1 \<or> 8 < k"
  by (auto simp: crop_mapping_def)

text \<open>
  Claim C6. When the classifier returns a first label outside the reverse table (the
  labels below 1 or above 8), the response is the body
  \<open>{"Recommended Crop": "No prediction available"}\<close> with status 200; for a label of
  the table it is the body with the mapped crop name, status 200.
\<close>

theorem unmapped_class_no_prediction:
  assumes "input_data data = Inr row" and "m row = Inr (k # rest)"
  shows "(map_of crop_mapping k = None \<longrightarrow>
            crop_recommendation (Some m) (Inr data)
              = ([row], \<lparr> status = 200, body = recommended ''No prediction available'' \<rparr>))
       \<and> (\<forall>name. map_of crop_mapping k = Some name \<longrightarrow>
            crop_recommendation (Some m) (Inr data)
              = ([row], \<lparr> status = 200, body = recommended name \<rparr>))
       \<and> (map_of crop_mapping k = None \<longleftrightarrow> k < 1 \<or> 8 < k)"
proof -
  have "map_of crop_mapping k = None \<longrightarrow>
            crop_recommendation (Some m) (Inr data)
              = ([row], \<lparr> status = 200, body = recommended ''No prediction available'' \<rparr>)"
    using assms
    by (simp add: crop_recommendation_def crop_recommendation_body_def recommended_def)
  moreover have "\<forall>name. map_of crop_mapping k = Some name \<longrightarrow>
            crop_recommendation (Some m) (Inr data)
              = ([row], \<lparr> status = 200, body = recommended name \<rparr>)"
    using assms
    by (simp add: crop_recommendation_def crop_recommendation_body_def recommended_def)
  ultimately show ?thesis
    using crop_mapping_None by blast
qed

text \<open>
  The theorem at the labels 9 (no prediction) and 2 (Rice).
\<close>

theorem unmapped_class_no_prediction_witness:
  "input_data full_request = Inr full_row
   \<and> constant_model [9] full_row = Inr [9]
   \<and> map_of crop_mapping 9 = None
   \<and> crop_recommendation (Some (constant_model [9])) (Inr full_request)
        = ([full_row], \<lparr> status = 200, body = recommended ''No prediction available'' \<rparr>)
   \<and> map_of crop_mapping 2 = Some ''Rice''
   \<and> crop_recommendation (Some (constant_model [2])) (Inr full_request)
        = ([full_row], \<lparr> status = 200, body = recommended ''Rice'' \<rparr>)"
proof -
  have m9: "constant_model [9] full_row = Inr [9]" and m2: "constant_model [2] full_row = Inr [2]"
    by (simp_all add: constant_model_def)
  have n: "map_of crop_mapping 9 = None" and r: "map_of crop_mapping 2 = Some ''Rice''"
    by (simp_all add: crop_mapping_def)
  show ?thesis
    using unmapped_class_no_prediction
        [where m = "constant_model [9]" and k = 9 and rest = "[]", OF input_data_full_request m9]
      unmapped_class_no_prediction
        [where m = "constant_model [2]" and k = 2 and rest = "[]", OF input_data_full_request m2]
      input_data_full_request m9 n r
    by simp
qed

text \<open>
  Claim C7. When loading the artifact failed at start-up (\<open>crop_model\<close> is
  \<open>None\<close>), every request is answered with an error body and status 500 and
  \<open>predict\<close> is never called. With a model present, an exception raised anywhere in
  the handler body becomes the body \<open>{"error": str(e)}\<close> with status 200, and
  every response has status 200.
\<close>

theorem model_missing_and_caught_errors:
  "(\<forall>e. joblib_load ''crop_rotation_recommendation_model.pkl'' = Inl e \<longrightarrow>
        crop_recommendation (import_app joblib_load) request_json
          = ([], \<lparr> status = 500, body = error_body
                ''Model not loaded. Ensure crop_rotation_recommendation_model.pkl exists.'' \<rparr>))
   \<and> crop_recommendation None request_json
      = ([], \<lparr> status = 500, body = error_body
            ''Model not loaded. Ensure crop_rotation_recommendation_model.pkl exists.'' \<rparr>)
   \<and> (\<forall>calls e. crop_recommendation_body (Some m) request_json = (calls, Inl e) \<longrightarrow>
          crop_recommendation (Some m) request_json
            = (calls, \<lparr> status = 200, body = error_body (exc_str e) \<rparr>))
   \<and> status (snd (crop_recommendation (Some m) request_json)) = 200"
proof -
  have none: "crop_recommendation None request_json
      = ([], \<lparr> status = 500, body = error_body
            ''Model not loaded. Ensure crop_rotation_recommendation_model.pkl exists.'' \<rparr>)"
    by (simp add: crop_recommendation_def crop_recommendation_body_def error_body_def)
  have "\<forall>e. joblib_load ''crop_rotation_recommendation_model.pkl'' = Inl e \<longrightarrow>
        import_app joblib_load = None"
    by (simp add: import_app_def)
  with none have load: "\<forall>e. joblib_load ''crop_rotation_recommendation_model.pkl'' = Inl e \<longrightarrow>
        crop_recommendation (import_app joblib_load) request_json
          = ([], \<lparr> status = 500, body = error_body
                ''Model not loaded. Ensure crop_rotation_recommendation_model.pkl exists.'' \<rparr>)"
    by simp
  have caught: "\<forall>calls e. crop_recommendation_body (Some m) request_json = (calls, Inl e) \<longrightarrow>
          crop_recommendation (Some m) request_json
            = (calls, \<lparr> status = 200, body = error_body (exc_str e) \<rparr>)"
    by (simp add: crop_recommendation_def error_body_def)
  have ok: "status (snd (crop_recommendation (Some m) request_json)) = 200"
    by (auto simp: crop_recommendation_def crop_recommendation_body_def
        split: sum.splits list.splits option.splits prod.splits)
  show ?thesis using load none caught ok by blast
qed

text \<open>
  The theorem at a missing artifact, and at the request body \<open>null\<close> with a model
  present (\<open>data.get\<close> raises).
\<close>

theorem model_missing_and_caught_errors_witness:
  "missing_artifact ''crop_rotation_recommendation_model.pkl''
      = Inl (PyException ''FileNotFoundError'' ''crop_rotation_recommendation_model.pkl'')
   \<and> crop_recommendation (import_app missing_artifact) (Inr full_request)
      = ([], \<lparr> status = 500, body = error_body
            ''Model not loaded. Ensure crop_rotation_recommendation_model.pkl exists.'' \<rparr>)
   \<and> crop_recommendation_body (Some (constant_model [1])) (Inr PyNone)
      = ([], Inl (AttributeError ''object has no attribute get''))
   \<and> crop_recommendation (Some (constant_model [1])) (Inr PyNone)
      = ([], \<lparr> status = 200, body = error_body ''object has no attribute get'' \<rparr>)"
proof -
  have l: "missing_artifact ''crop_rotation_recommendation_model.pkl''
      = Inl (PyException ''FileNotFoundError'' ''crop_rotation_recommendation_model.pkl'')"
    by (simp add: missing_artifact_def)
  have b: "crop_recommendation_body (Some (constant_model [1])) (Inr PyNone)
      = ([], Inl (AttributeError ''object has no attribute get''))"
    by (simp add: crop_recommendation_body_def input_data_def raising_def)
  have s: "exc_str (AttributeError ''object has no attribute get'') = ''object has no attribute get''"
    by (simp add: AttributeError_def)
  from model_missing_and_caught_errors [of missing_artifact "Inr full_request" "constant_model [1]"] l
  have 1: "crop_recommendation (import_app missing_artifact) (Inr full_request)
      = ([], \<lparr> status = 500, body = error_body
            ''Model not loaded. Ensure crop_rotation_recommendation_model.pkl exists.'' \<rparr>)"
    by blast
  from model_missing_and_caught_errors [of missing_artifact "Inr PyNone" "constant_model [1]"] b
  have 2: "crop_recommendation (Some (constant_model [1])) (Inr PyNone)
      = ([], \<lparr> status = 200,
            body = error_body (exc_str (AttributeError ''object has no attribute get'')) \<rparr>)"
    by blast
  show ?thesis using l 1 2 b by (simp add: s)
qed

text \<open>
  Claim C8. A request object is not rejected for missing numeric fields: the row is
  built, every missing one of Moisture Level, Nitrogen (N), Phosphorus (P) and
  Potassium (K) stands in it as \<open>None\<close>, and the classifier is called on that row.
\<close>

theorem missing_numeric_fields_pass:
  assumes "hashable (field kvs ''Previous Crop'')" and "hashable (field kvs ''Soil Type'')"
  shows "\<exists>row. input_data (PyDict kvs) = Inr row
      \<and> (map_of (rev kvs) ''Moisture Level'' = None \<longrightarrow> Moisture_Level row = PyNone)
      \<and> (map_of (rev kvs) ''Nitrogen (N)'' = None \<longrightarrow> Nitrogen_N row = PyNone)
      \<and> (map_of (rev kvs) ''Phosphorus (P)'' = None \<longrightarrow> Phosphorus_P row = PyNone)
      \<and> (map_of (rev kvs) ''Potassium (K)'' = None \<longrightarrow> Potassium_K row = PyNone)
      \<and> fst (crop_recommendation (Some m) (Inr (PyDict kvs))) = [row]"
proof -
  obtain pc where pc: "table_get previous_crop_mapping (field kvs ''Previous Crop'') (- 1) = Inr pc"
    using table_get_hashable [OF assms(1)] by blast
  obtain so where so: "table_get soil_type_mapping (field kvs ''Soil Type'') (- 1) = Inr so"
    using table_get_hashable [OF assms(2)] by blast
  have row: "input_data (PyDict kvs) =
       Inr \<lparr> Previous_Crop = pc, Soil_Type = so,
             Moisture_Level = field kvs ''Moisture Level'',
             Nitrogen_N = field kvs ''Nitrogen (N)'',
             Phosphorus_P = field kvs ''Phosphorus (P)'',
             Potassium_K = field kvs ''Potassium (K)'' \<rparr>"
    by (simp add: input_data_dict raising_def pc so)
  have "fst (crop_recommendation (Some m) (Inr (PyDict kvs))) =
      [\<lparr> Previous_Crop = pc, Soil_Type = so,
             Moisture_Level = field kvs ''Moisture Level'',
             Nitrogen_N = field kvs ''Nitrogen (N)'',
             Phosphorus_P = field kvs ''Phosphorus (P)'',
             Potassium_K = field kvs ''Potassium (K)'' \<rparr>]"
    by (simp add: crop_recommendation_def crop_recommendation_body_def row
        split: sum.splits list.splits option.splits)
  then show ?thesis
    by (simp add: row field_def)
qed

text \<open>
  The theorem at a request that carries the two categories only.
\<close>

theorem missing_numeric_fields_pass_witness:
  "hashable (field categories_only ''Previous Crop'')
   \<and> hashable (field categories_only ''Soil Type'')
   \<and> map_of (rev categories_only) ''Moisture Level'' = None
   \<and> map_of (rev categories_only) ''Nitrogen (N)'' = None
   \<and> map_of (rev categories_only) ''Phosphorus (P)'' = None
   \<and> map_of (rev categories_only) ''Potassium (K)'' = None
   \<and> input_data (PyDict categories_only) = Inr categories_only_row
   \<and> Moisture_Level categories_only_row = PyNone
   \<and> Nitrogen_N categories_only_row = PyNone
   \<and> Phosphorus_P categories_only_row = PyNone
   \<and> Potassium_K categories_only_row = PyNone
   \<and> fst (crop_recommendation (Some (constant_model [1])) (Inr (PyDict categories_only)))
        = [categories_only_row]"
proof -
  have h1: "hashable (field categories_only ''Previous Crop'')"
    and h2: "hashable (field categories_only ''Soil Type'')"
    by (simp_all add: categories_only_def field_def)
  have a: "map_of (rev categories_only) ''Moisture Level'' = None"
    "map_of (rev categories_only) ''Nitrogen (N)'' = None"
    "map_of (rev categories_only) ''Phosphorus (P)'' = None"
    "map_of (rev categories_only) ''Potassium (K)'' = None"
    by (simp_all add: categories_only_def)
  show ?thesis
    using missing_numeric_fields_pass [OF h1 h2, of "constant_model [1]"]
      h1 h2 a input_data_categories_only
    by auto
qed

end
